theory Spec2Isabelle
  imports Main "HOL-Library.Word" "HOL-Library.List_Lexorder" "HOL-Library.Multiset"
begin

unbundle bit_operations_syntax

section \<open>Python strings\<close>

text \<open>
  A Python \<open>str\<close> is a sequence of Unicode code points, and the program handles Japanese
  text, so a string is a list of code points here. Python compares strings
  lexicographically by code point, which is the list order of
  \<open>HOL-Library.List_Lexorder\<close>. \<open>str\<close> turns an ASCII literal into such a string.
\<close>

type_synonym pystr = "nat list"

definition str :: "string \<Rightarrow> pystr" where
  "str s = map of_char s"

text \<open>\<open>str.isspace\<close> for one code point: the characters \<open>str.strip()\<close> removes.\<close>

definition isspace :: "nat \<Rightarrow> bool" where
  "isspace c \<longleftrightarrow>
     (9 \<le> c \<and> c \<le> 13) \<or> (28 \<le> c \<and> c \<le> 32) \<or> c = 133 \<or> c = 160 \<or> c = 5760 \<or>
     (8192 \<le> c \<and> c \<le> 8202) \<or> c = 8232 \<or> c = 8233 \<or> c = 8239 \<or> c = 8287 \<or> c = 12288"

definition strip :: "pystr \<Rightarrow> pystr" where
  "strip s = rev (dropWhile isspace (rev (dropWhile isspace s)))"

section \<open>JSON values and \<open>json.dumps\<close>\<close>

text \<open>
  The metadata is a Python dict of integers, strings and nested dicts. A dict keeps its
  insertion order, so an object is an association list; the keys of a dict are distinct
  (\<open>is_dict\<close>).
\<close>

datatype json = JInt int | JStr pystr | JObj "(pystr \<times> json) list"

fun is_dict :: "json \<Rightarrow> bool" where
  "is_dict (JInt n) = True"
| "is_dict (JStr s) = True"
| "is_dict (JObj kvs) = (distinct (map fst kvs) \<and> list_all (\<lambda>kv. is_dict (snd kv)) kvs)"

text \<open>\<open>repr\<close> of a Python integer: decimal digits, a minus sign when negative.\<close>

fun digits :: "nat \<Rightarrow> pystr" where
  "digits n = (if n < 10 then [48 + n] else digits (n div 10) @ [48 + n mod 10])"

declare digits.simps [simp del]

definition int_repr :: "int \<Rightarrow> pystr" where
  "int_repr i = (if i < 0 then 45 # digits (nat (- i)) else digits (nat i))"

text \<open>
  \<open>json.encoder.encode_basestring\<close>, used when \<open>ensure_ascii=False\<close>: the quote, the
  backslash and the control characters below U+0020 are escaped, every other code point
  is kept as it is.
\<close>

definition hexdigit :: "nat \<Rightarrow> nat" where
  "hexdigit d = (if d < 10 then 48 + d else 87 + d)"

definition escape_char :: "nat \<Rightarrow> pystr" where
  "escape_char c =
     (if c = 34 then [92, 34]
      else if c = 92 then [92, 92]
      else if c = 8 then [92, 98]
      else if c = 12 then [92, 102]
      else if c = 10 then [92, 110]
      else if c = 13 then [92, 114]
      else if c = 9 then [92, 116]
      else if c < 32 then [92, 117, 48, 48, hexdigit (c div 16), hexdigit (c mod 16)]
      else [c])"

definition encode_basestring :: "pystr \<Rightarrow> pystr" where
  "encode_basestring s = 34 # concat (map escape_char s) @ [34]"

text \<open>\<open>sep.join(parts)\<close>.\<close>

fun join :: "pystr \<Rightarrow> pystr list \<Rightarrow> pystr" where
  "join sep [] = []"
| "join sep [p] = p"
| "join sep (p # q # ps) = p @ sep @ join sep (q # ps)"

text \<open>
  \<open>json.dumps(metadata, sort_keys=True, ensure_ascii=False)\<close>: the items of each dict
  are sorted by key, then written as \<open>"key": value\<close> joined by \<open>", "\<close>.
\<close>

function dumps :: "json \<Rightarrow> pystr" where
  "dumps (JInt n) = int_repr n"
| "dumps (JStr s) = encode_basestring s"
| "dumps (JObj kvs) =
     str ''{'' @
     join (str '', '')
       (map (\<lambda>kv. encode_basestring (fst kv) @ str '': '' @ dumps (snd kv))
            (sort_key fst kvs)) @
     str ''}''"
  by pat_completeness auto
termination
  by (relation "measure size") (auto simp: less_Suc_eq_le size_list_estimation')

section \<open>UTF-8 and SHA-256\<close>

datatype error =
    UnicodeEncodeError
  | KeyError pystr
  | Forbidden

type_synonym byte = "8 word"
type_synonym word32 = "32 word"

text \<open>
  \<open>str.encode('utf-8')\<close>. A lone surrogate (U+D800 to U+DFFF) cannot be encoded and
  raises \<open>UnicodeEncodeError\<close>. A Python string holds no code point above U+10FFFF; the
  model gives the same error there.
\<close>

definition utf8_char :: "nat \<Rightarrow> error + byte list" where
  "utf8_char c =
     (if c < 0x80 then Inr [of_nat c]
      else if c < 0x800 then Inr [of_nat (0xC0 + c div 64), of_nat (0x80 + c mod 64)]
      else if 0xD800 \<le> c \<and> c \<le> 0xDFFF then Inl UnicodeEncodeError
      else if c < 0x10000 then
        Inr [of_nat (0xE0 + c div 4096), of_nat (0x80 + c div 64 mod 64),
             of_nat (0x80 + c mod 64)]
      else if c < 0x110000 then
        Inr [of_nat (0xF0 + c div 262144), of_nat (0x80 + c div 4096 mod 64),
             of_nat (0x80 + c div 64 mod 64), of_nat (0x80 + c mod 64)]
      else Inl UnicodeEncodeError)"

fun utf8_encode :: "pystr \<Rightarrow> error + byte list" where
  "utf8_encode [] = Inr []"
| "utf8_encode (c # cs) =
     (case utf8_char c of
        Inl e \<Rightarrow> Inl e
      | Inr bs \<Rightarrow> (case utf8_encode cs of Inl e \<Rightarrow> Inl e | Inr rest \<Rightarrow> Inr (bs @ rest)))"

text \<open>
  SHA-256 (FIPS 180-4), as \<open>hashlib.sha256\<close> computes it. The round constants are the
  first 32 bits of the fractional parts of the cube roots of the first 64 primes, written
  in decimal.
\<close>

definition K256 :: "word32 list" where
  "K256 =
    [1116352408, 1899447441, 3049323471, 3921009573, 961987163, 1508970993,
     2453635748, 2870763221, 3624381080, 310598401, 607225278, 1426881987,
     1925078388, 2162078206, 2614888103, 3248222580, 3835390401, 4022224774,
     264347078, 604807628, 770255983, 1249150122, 1555081692, 1996064986,
     2554220882, 2821834349, 2952996808, 3210313671, 3336571891, 3584528711,
     113926993, 338241895, 666307205, 773529912, 1294757372, 1396182291,
     1695183700, 1986661051, 2177026350, 2456956037, 2730485921, 2820302411,
     3259730800, 3345764771, 3516065817, 3600352804, 4094571909, 275423344,
     430227734, 506948616, 659060556, 883997877, 958139571, 1322822218,
     1537002063, 1747873779, 1955562222, 2024104815, 2227730452, 2361852424,
     2428436474, 2756734187, 3204031479, 3329325298]"

record hstate =
  ha :: word32
  hb :: word32
  hc :: word32
  hd' :: word32
  he :: word32
  hf :: word32
  hg :: word32
  hh :: word32

definition H256 :: hstate where
  "H256 = \<lparr>ha = 0x6a09e667, hb = 0xbb67ae85, hc = 0x3c6ef372, hd' = 0xa54ff53a,
            he = 0x510e527f, hf = 0x9b05688c, hg = 0x1f83d9ab, hh = 0x5be0cd19\<rparr>"

definition rotr :: "nat \<Rightarrow> word32 \<Rightarrow> word32" where
  "rotr n x = drop_bit n x OR push_bit (32 - n) x"

definition Ch :: "word32 \<Rightarrow> word32 \<Rightarrow> word32 \<Rightarrow> word32" where
  "Ch x y z = (x AND y) XOR (NOT x AND z)"

definition Maj :: "word32 \<Rightarrow> word32 \<Rightarrow> word32 \<Rightarrow> word32" where
  "Maj x y z = (x AND y) XOR (x AND z) XOR (y AND z)"

definition bsig0 :: "word32 \<Rightarrow> word32" where
  "bsig0 x = rotr 2 x XOR rotr 13 x XOR rotr 22 x"

definition bsig1 :: "word32 \<Rightarrow> word32" where
  "bsig1 x = rotr 6 x XOR rotr 11 x XOR rotr 25 x"

definition ssig0 :: "word32 \<Rightarrow> word32" where
  "ssig0 x = rotr 7 x XOR rotr 18 x XOR drop_bit 3 x"

definition ssig1 :: "word32 \<Rightarrow> word32" where
  "ssig1 x = rotr 17 x XOR rotr 19 x XOR drop_bit 10 x"

text \<open>The padded message: a 1 bit, zeros, and the bit length as 64 bits, big-endian.\<close>

definition be64 :: "64 word \<Rightarrow> byte list" where
  "be64 n = map (\<lambda>i. ucast (drop_bit (8 * i) n)) [7, 6, 5, 4, 3, 2, 1, 0]"

definition pad :: "byte list \<Rightarrow> byte list" where
  "pad msg =
     msg @ [0x80] @ replicate ((119 - length msg mod 64) mod 64) 0 @
     be64 (8 * of_nat (length msg))"

fun blocks :: "byte list \<Rightarrow> byte list list" where
  "blocks bs = (if length bs < 64 then [] else take 64 bs # blocks (drop 64 bs))"

declare blocks.simps [simp del]

fun be_words :: "byte list \<Rightarrow> word32 list" where
  "be_words (a # b # c # d # bs) =
     (push_bit 24 (ucast a) OR push_bit 16 (ucast b) OR push_bit 8 (ucast c) OR ucast d)
       # be_words bs"
| "be_words bs = []"

text \<open>The message schedule extends the 16 words of a block to 64.\<close>

fun schedule :: "nat \<Rightarrow> word32 list \<Rightarrow> word32 list" where
  "schedule 0 w = w"
| "schedule (Suc n) w =
     schedule n
       (w @ [ssig1 (w ! (length w - 2)) + w ! (length w - 7) +
             ssig0 (w ! (length w - 15)) + w ! (length w - 16)])"

definition round :: "hstate \<Rightarrow> word32 \<times> word32 \<Rightarrow> hstate" where
  "round s kw =
     (let t1 = hh s + bsig1 (he s) + Ch (he s) (hf s) (hg s) + fst kw + snd kw;
          t2 = bsig0 (ha s) + Maj (ha s) (hb s) (hc s)
      in \<lparr>ha = t1 + t2, hb = ha s, hc = hb s, hd' = hc s,
          he = hd' s + t1, hf = he s, hg = hf s, hh = hg s\<rparr>)"

definition compress :: "hstate \<Rightarrow> byte list \<Rightarrow> hstate" where
  "compress s block =
     (let t = foldl round s (zip K256 (schedule 48 (be_words block)))
      in \<lparr>ha = ha s + ha t, hb = hb s + hb t, hc = hc s + hc t, hd' = hd' s + hd' t,
          he = he s + he t, hf = hf s + hf t, hg = hg s + hg t, hh = hh s + hh t\<rparr>)"

definition be32 :: "word32 \<Rightarrow> byte list" where
  "be32 w = [ucast (drop_bit 24 w), ucast (drop_bit 16 w), ucast (drop_bit 8 w), ucast w]"

definition sha256 :: "byte list \<Rightarrow> byte list" where
  "sha256 msg =
     (let s = foldl compress H256 (blocks (pad msg))
      in concat (map be32 [ha s, hb s, hc s, hd' s, he s, hf s, hg s, hh s]))"

text \<open>\<open>hexdigest()\<close>: two lowercase hexadecimal digits for each byte.\<close>

definition hex_byte :: "byte \<Rightarrow> pystr" where
  "hex_byte b = [hexdigit (unat b div 16), hexdigit (unat b mod 16)]"

definition hexdigest :: "byte list \<Rightarrow> pystr" where
  "hexdigest bs = concat (map hex_byte bs)"

section \<open>The proof hash\<close>

definition compute_proof_hash :: "json \<Rightarrow> error + pystr" where
  "compute_proof_hash metadata =
     (let metadata_str = dumps metadata
      in case utf8_encode metadata_str of
           Inl e \<Rightarrow> Inl e
         | Inr bs \<Rightarrow> Inr (hexdigest (sha256 bs)))"

section \<open>Records and the store\<close>

text \<open>
  An item of \<open>db["items"]\<close>, with its nested \<open>proof\<close> and \<open>timestamps\<close> dicts. The
  status is a string, as in the source. The store is the list of items, in insertion
  order.
\<close>

record proof_t =
  hash :: pystr
  sim_testnet_txid :: pystr

record timestamps_t =
  created_at :: pystr
  updated_at :: pystr

record item =
  item_id :: int
  status :: pystr
  metadata :: json
  item_proof :: proof_t
  timestamps :: timestamps_t

type_synonym db = "item list"

text \<open>
  A Python dict with string keys, and the fields of a request (\<open>request.form\<close>,
  \<open>request.args\<close>): \<open>d[k]\<close> raises \<open>KeyError\<close> on a missing key, \<open>d.get(k, default)\<close>
  does not.
\<close>

type_synonym 'a dict = "(pystr \<times> 'a) list"

definition getitem :: "'a dict \<Rightarrow> pystr \<Rightarrow> error + 'a" where
  "getitem d k = (case map_of d k of None \<Rightarrow> Inl (KeyError k) | Some v \<Rightarrow> Inr v)"

definition get :: "'a dict \<Rightarrow> pystr \<Rightarrow> 'a \<Rightarrow> 'a" where
  "get d k dflt = (case map_of d k of None \<Rightarrow> dflt | Some v \<Rightarrow> v)"

text \<open>
  \<open>generate_id\<close>, from the clock reading \<open>int(datetime.now().timestamp() * 1000000)\<close>.
\<close>

definition generate_id :: "int \<Rightarrow> int" where
  "generate_id clock_us = clock_us mod 1000000"

section \<open>Metadata\<close>

definition create_metadata :: "pystr dict \<Rightarrow> error + json" where
  "create_metadata form_data =
     (case getitem form_data (str ''producer_name'') of Inl e \<Rightarrow> Inl e | Inr producer_name \<Rightarrow>
      case getitem form_data (str ''prefecture'') of Inl e \<Rightarrow> Inl e | Inr prefecture \<Rightarrow>
      case getitem form_data (str ''product'') of Inl e \<Rightarrow> Inl e | Inr product \<Rightarrow>
      case getitem form_data (str ''certification'') of Inl e \<Rightarrow> Inl e | Inr certification \<Rightarrow>
      case getitem form_data (str ''lot_size'') of Inl e \<Rightarrow> Inl e | Inr lot_size \<Rightarrow>
      case getitem form_data (str ''harvest_date'') of Inl e \<Rightarrow> Inl e | Inr harvest_date \<Rightarrow>
      Inr (JObj
        [(str ''rwa_version'', JInt 1),
         (str ''standard'', JStr (str ''hashirwa-demo'')),
         (str ''issuer'', JStr producer_name),
         (str ''jurisdiction'', JObj
            [(str ''country'', JStr (str ''Japan'')),
             (str ''prefecture'', JStr prefecture)]),
         (str ''asset'', JObj
            [(str ''category'', JStr (str ''Agriculture'')),
             (str ''product'', JStr product),
             (str ''certification'', JStr certification),
             (str ''lot_size'', JStr lot_size),
             (str ''harvest_date'', JStr harvest_date)]),
         (str ''contacts'', JObj
            [(str ''email'', JStr (get form_data (str ''contact_email'') [])),
             (str ''wallet'', JStr (get form_data (str ''wallet_address'') []))]),
         (str ''notes'', JStr (get form_data (str ''notes'') []))]))"

section \<open>Seed data\<close>

text \<open>
  The three items \<open>seed_data\<close> writes into an empty store. Code points outside ASCII are
  written as numbers: the prefecture names and the \<open>o\<close> with macron of the third producer.
\<close>

definition seed_items :: "pystr dict list" where
  "seed_items =
     [[(str ''producer_name'', str ''Shizuoka Green Tea Co.''),
       (str ''prefecture'', [0x9759, 0x5CA1, 0x770C]),
       (str ''product'', str ''Green Tea''),
       (str ''certification'', str ''JAS Organic''),
       (str ''lot_size'', str ''500kg''),
       (str ''harvest_date'', str ''2024-05-15''),
       (str ''contact_email'', str ''info@shizuoka-tea.jp''),
       (str ''wallet_address'', str ''0x1234567890abcdef1234567890abcdef12345678''),
       (str ''notes'', str ''Premium grade sencha from mountain slopes'')],
      [(str ''producer_name'', str ''Aomori Apple Farmers Union''),
       (str ''prefecture'', [0x9752, 0x68EE, 0x770C]),
       (str ''product'', str ''Apple''),
       (str ''certification'', str ''JGAP''),
       (str ''lot_size'', str ''1000kg''),
       (str ''harvest_date'', str ''2024-10-20''),
       (str ''contact_email'', str ''contact@aomori-apples.jp''),
       (str ''wallet_address'', str ''0xabcdef1234567890abcdef1234567890abcdef12''),
       (str ''notes'', str ''Fuji apples from certified organic farms'')],
      [(str ''producer_name'', str ''Hokkaid'' @ [0x14D] @ str '' Rice Collective''),
       (str ''prefecture'', [0x5317, 0x6D77, 0x9053]),
       (str ''product'', str ''Rice''),
       (str ''certification'', str ''JA''),
       (str ''lot_size'', str ''2000kg''),
       (str ''harvest_date'', str ''2024-09-30''),
       (str ''contact_email'', str ''hello@hokkaido-rice.jp''),
       (str ''wallet_address'', str ''0x567890abcdef1234567890abcdef1234567890ab''),
       (str ''notes'', str ''Premium short-grain rice variety'')]]"

text \<open>
  The loop of \<open>seed_data\<close>: \<open>clock n\<close> is the clock reading behind the \<open>n\<close>-th call of
  \<open>generate_id()\<close>, \<open>now\<close> the one timestamp all seed items share.
\<close>

fun seed_loop :: "(nat \<Rightarrow> int) \<Rightarrow> pystr \<Rightarrow> nat \<Rightarrow> pystr dict list \<Rightarrow> db \<Rightarrow> error + db" where
  "seed_loop clock now n [] items = Inr items"
| "seed_loop clock now n (seed_item # rest) items =
     (case create_metadata seed_item of
        Inl e \<Rightarrow> Inl e
      | Inr md \<Rightarrow>
          (case compute_proof_hash md of
             Inl e \<Rightarrow> Inl e
           | Inr proof_hash \<Rightarrow>
               seed_loop clock now (Suc n) rest
                 (items @
                  [\<lparr>item_id = generate_id (clock n), status = str ''approved'', metadata = md,
                    item_proof = \<lparr>hash = proof_hash,
                                  sim_testnet_txid = str ''testnet:'' @ take 16 proof_hash\<rparr>,
                    timestamps = \<lparr>created_at = now, updated_at = now\<rparr>\<rparr>])))"

definition seed_data :: "(nat \<Rightarrow> int) \<Rightarrow> pystr \<Rightarrow> db \<Rightarrow> error + db" where
  "seed_data clock now db = (if db = [] then seed_loop clock now 0 seed_items db else Inr db)"

section \<open>Submission\<close>

text \<open>
  The POST branch of \<open>onboard\<close>. \<open>clock_us\<close> and \<open>now\<close> are what the two clock readings of
  the request give: the microsecond count behind \<open>generate_id()\<close> and
  \<open>datetime.now().isoformat()\<close>. The result is the outcome and the store after the
  request; an exception leaves the store as it was, since it is raised before
  \<open>load_db\<close>.
\<close>

definition form_fields :: "pystr list" where
  "form_fields =
     [str ''producer_name'', str ''prefecture'', str ''product'', str ''certification'',
      str ''lot_size'', str ''harvest_date'', str ''contact_email'', str ''wallet_address'',
      str ''notes'']"

text \<open>
  The dict \<open>form_data\<close> of \<open>onboard\<close>: each of the nine fields, read with
  \<open>request.form.get(field, "")\<close> and stripped.
\<close>

definition form_data :: "pystr dict \<Rightarrow> pystr dict" where
  "form_data form = map (\<lambda>k. (k, strip (get form k []))) form_fields"

definition onboard :: "int \<Rightarrow> pystr \<Rightarrow> pystr dict \<Rightarrow> db \<Rightarrow> (error + item) \<times> db" where
  "onboard clock_us now form db =
     (let new_id = generate_id clock_us
      in case create_metadata (form_data form) of
           Inl e \<Rightarrow> (Inl e, db)
         | Inr md \<Rightarrow>
             (case compute_proof_hash md of
                Inl e \<Rightarrow> (Inl e, db)
              | Inr proof_hash \<Rightarrow>
                  (let txid = str ''testnet:'' @ take 16 proof_hash;
                       it = \<lparr>item_id = new_id, status = str ''pending'', metadata = md,
                             item_proof = \<lparr>hash = proof_hash, sim_testnet_txid = txid\<rparr>,
                             timestamps = \<lparr>created_at = now, updated_at = now\<rparr>\<rparr>
                   in (Inr it, db @ [it]))))"

section \<open>Review\<close>

text \<open>
  \<open>next((item for item in db["items"] if item["id"] == item_id), None)\<close> yields the first
  item with the id, and the handler mutates that item in place before saving the store:
  the first match is replaced, the rest of the list is untouched.
\<close>

fun mutate_first :: "('a \<Rightarrow> bool) \<Rightarrow> ('a \<Rightarrow> 'a) \<Rightarrow> 'a list \<Rightarrow> 'a list" where
  "mutate_first P f [] = []"
| "mutate_first P f (x # xs) = (if P x then f x # xs else x # mutate_first P f xs)"

definition set_status :: "pystr \<Rightarrow> pystr \<Rightarrow> item \<Rightarrow> item" where
  "set_status st now it =
     it\<lparr>status := st, timestamps := (timestamps it)\<lparr>updated_at := now\<rparr>\<rparr>"

text \<open>
  \<open>ADMIN_KEY\<close> is the configured key (\<open>hashirwa\<close> unless the environment sets it),
  \<open>args\<close> the query string of the request. \<open>abort(403)\<close> is the error \<open>Forbidden\<close>; the
  other outcome is the redirect to the admin page.
\<close>

definition admin_approve :: "pystr \<Rightarrow> pystr dict \<Rightarrow> pystr \<Rightarrow> int \<Rightarrow> db \<Rightarrow> (error + unit) \<times> db" where
  "admin_approve ADMIN_KEY args now i db =
     (let admin_key = get args (str ''k'') []
      in if admin_key \<noteq> ADMIN_KEY then (Inl Forbidden, db)
         else (Inr (), mutate_first (\<lambda>it. item_id it = i) (set_status (str ''approved'') now) db))"

definition admin_reject :: "pystr \<Rightarrow> pystr dict \<Rightarrow> pystr \<Rightarrow> int \<Rightarrow> db \<Rightarrow> (error + unit) \<times> db" where
  "admin_reject ADMIN_KEY args now i db =
     (let admin_key = get args (str ''k'') []
      in if admin_key \<noteq> ADMIN_KEY then (Inl Forbidden, db)
         else (Inr (), mutate_first (\<lambda>it. item_id it = i) (set_status (str ''rejected'') now) db))"

section \<open>Listings\<close>

text \<open>
  The two lists that the handlers compute from the store before they build a page:
  \<open>pending_items\<close> is the variable of that name in \<open>admin\<close> after its sort,
  \<open>approved_items\<close> the variable of that name in \<open>admin\<close> and in \<open>market\<close>, which
  compute it by the same two statements. Building the HTML page from these lists (the
  f-string over the items' metadata and \<open>render_template_string\<close>) is page rendering and
  is not modelled.

  \<open>list.sort\<close> is stable, as \<open>sort_key\<close> is; with \<open>reverse=True\<close> it sorts descending and
  still keeps equal keys in their original order, which is the reverse of sorting the
  reversed list.
\<close>

definition pending_items :: "db \<Rightarrow> item list" where
  "pending_items db =
     sort_key (\<lambda>x. created_at (timestamps x)) (filter (\<lambda>it. status it = str ''pending'') db)"

definition approved_items :: "db \<Rightarrow> item list" where
  "approved_items db =
     rev (sort_key (\<lambda>x. updated_at (timestamps x))
            (rev (filter (\<lambda>it. status it = str ''approved'') db)))"

section \<open>Notions used to state the properties\<close>

text \<open>
  Text that a request can carry: the form decoder never yields a lone surrogate, so each
  code point is a Unicode scalar value. This is what \<open>str.encode('utf-8')\<close> accepts.
\<close>

definition scalar :: "nat \<Rightarrow> bool" where
  "scalar c \<longleftrightarrow> c < 0xD800 \<or> (0xDFFF < c \<and> c < 0x110000)"

definition valid_str :: "pystr \<Rightarrow> bool" where
  "valid_str s = list_all scalar s"

fun valid_json :: "json \<Rightarrow> bool" where
  "valid_json (JInt n) = True"
| "valid_json (JStr s) = valid_str s"
| "valid_json (JObj kvs) = list_all (\<lambda>kv. valid_str (fst kv) \<and> valid_json (snd kv)) kvs"

definition valid_form :: "pystr dict \<Rightarrow> bool" where
  "valid_form form = list_all (\<lambda>kv. valid_str (snd kv)) form"

definition hexchars :: "nat set" where
  "hexchars = set (str ''0123456789abcdef'')"

text \<open>
  Python's \<open>==\<close> on the metadata: two dicts are equal when they have the same number of
  keys and every key of the first is in the second with an equal value, whatever the
  insertion order.
\<close>

fun py_eq :: "json \<Rightarrow> json \<Rightarrow> bool"
  and py_sub :: "(pystr \<times> json) list \<Rightarrow> (pystr \<times> json) list \<Rightarrow> bool"
  and py_find :: "pystr \<Rightarrow> json \<Rightarrow> (pystr \<times> json) list \<Rightarrow> bool" where
  "py_eq (JInt a) (JInt b) = (a = b)"
| "py_eq (JStr s) (JStr t) = (s = t)"
| "py_eq (JObj xs) (JObj ys) = (length xs = length ys \<and> py_sub xs ys)"
| "py_eq (JInt a) (JStr t) = False"
| "py_eq (JInt a) (JObj ys) = False"
| "py_eq (JStr s) (JInt b) = False"
| "py_eq (JStr s) (JObj ys) = False"
| "py_eq (JObj xs) (JInt b) = False"
| "py_eq (JObj xs) (JStr t) = False"
| "py_sub [] ys = True"
| "py_sub (kv # xs) ys = (py_find (fst kv) (snd kv) ys \<and> py_sub xs ys)"
| "py_find k v [] = False"
| "py_find k v (kw # ys) = (if k = fst kw then py_eq v (snd kw) else py_find k v ys)"

text \<open>\<open>metadata[k]\<close> on a JSON value.\<close>

fun field :: "json \<Rightarrow> pystr \<Rightarrow> json option" where
  "field (JObj kvs) k = map_of kvs k"
| "field (JInt n) k = None"
| "field (JStr s) k = None"

text \<open>The position of the first item with a given id; the length of the store if none.\<close>

definition first_index :: "int \<Rightarrow> db \<Rightarrow> nat" where
  "first_index i db = length (takeWhile (\<lambda>it. item_id it \<noteq> i) db)"

text \<open>
  A small store and requests, for concrete instances of the properties. The four items
  are what four submissions leave behind (complete metadata, the hash of that metadata),
  two of them approved since.
\<close>

definition demo_metadata :: "pystr \<Rightarrow> json" where
  "demo_metadata producer =
     JObj
       [(str ''rwa_version'', JInt 1),
        (str ''standard'', JStr (str ''hashirwa-demo'')),
        (str ''issuer'', JStr producer),
        (str ''jurisdiction'', JObj
           [(str ''country'', JStr (str ''Japan'')),
            (str ''prefecture'', JStr [0x6771, 0x4EAC, 0x90FD])]),
        (str ''asset'', JObj
           [(str ''category'', JStr (str ''Agriculture'')),
            (str ''product'', JStr (str ''Rice'')),
            (str ''certification'', JStr (str ''JA'')),
            (str ''lot_size'', JStr (str ''10kg'')),
            (str ''harvest_date'', JStr (str ''2024-01-01''))]),
        (str ''contacts'', JObj
           [(str ''email'', JStr []),
            (str ''wallet'', JStr [])]),
        (str ''notes'', JStr [])]"

definition demo_item :: "int \<Rightarrow> pystr \<Rightarrow> pystr \<Rightarrow> pystr \<Rightarrow> pystr \<Rightarrow> pystr \<Rightarrow> item" where
  "demo_item i st producer h c u =
     \<lparr>item_id = i, status = st, metadata = demo_metadata producer,
      item_proof = \<lparr>hash = h, sim_testnet_txid = str ''testnet:'' @ take 16 h\<rparr>,
      timestamps = \<lparr>created_at = c, updated_at = u\<rparr>\<rparr>"

definition demo_db :: db where
  "demo_db =
     [demo_item 101 (str ''pending'') (str ''Farm A'')
        (str ''8cfcd4b5ad93e8cb3d02f490b7fd869b12de913888f569c150db3f0d99063b66'')
        (str ''2024-03-01T10:00:00'') (str ''2024-03-01T10:00:00''),
      demo_item 102 (str ''approved'') (str ''Farm B'')
        (str ''8cf455b94af73552b4965d91025278b6743adfead84fb760e67905b113b10499'')
        (str ''2024-01-01T10:00:00'') (str ''2024-02-01T10:00:00''),
      demo_item 103 (str ''pending'') (str ''Farm C'')
        (str ''a80d3e4ed0d76f3cc887ad43c7fd32f0c2fda22fc961c32fa3d0adf0fca5b9b0'')
        (str ''2024-02-01T10:00:00'') (str ''2024-02-01T10:00:00''),
      demo_item 104 (str ''approved'') (str ''Farm D'')
        (str ''df720209ab3b532f64ed53dc338898d95e6823d2c250f08d06fc92cb2dc3c9ff'')
        (str ''2024-01-05T10:00:00'') (str ''2024-04-01T10:00:00'')]"

definition demo_key :: pystr where
  "demo_key = str ''hashirwa''"

definition demo_args :: "pystr dict" where
  "demo_args = [(str ''k'', str ''hashirwa'')]"

text \<open>
  A submission with the required fields filled in (the prefecture is Tokyo, written in
  its three kanji), which also sends a \<open>country\<close> field the form does not have; and one
  whose producer name is blank and whose other fields are missing.
\<close>

definition demo_form :: "pystr dict" where
  "demo_form =
     [(str ''producer_name'', str '' Test Farm ''),
      (str ''prefecture'', [0x6771, 0x4EAC, 0x90FD]),
      (str ''product'', str ''Rice''),
      (str ''lot_size'', str ''10kg''),
      (str ''harvest_date'', str ''2024-01-01''),
      (str ''country'', str ''France'')]"

definition blank_form :: "pystr dict" where
  "blank_form = [(str ''producer_name'', str ''   ''), (str ''product'', [])]"

definition demo_clock :: int where
  "demo_clock = 1717243200000001"

definition demo_ticks :: "nat \<Rightarrow> int" where
  "demo_ticks n = demo_clock + 7 * int n"

text \<open>The same metadata content built in two different orders, at both levels.\<close>

definition demo_md_a :: json where
  "demo_md_a =
     JObj [(str ''rwa_version'', JInt 1),
           (str ''issuer'', JStr (str ''Test Farm'')),
           (str ''jurisdiction'',
            JObj [(str ''country'', JStr (str ''Japan'')),
                  (str ''prefecture'', JStr [0x6771, 0x4EAC, 0x90FD])])]"

definition demo_md_b :: json where
  "demo_md_b =
     JObj [(str ''jurisdiction'',
            JObj [(str ''prefecture'', JStr [0x6771, 0x4EAC, 0x90FD]),
                  (str ''country'', JStr (str ''Japan''))]),
           (str ''issuer'', JStr (str ''Test Farm'')),
           (str ''rwa_version'', JInt 1)]"

definition demo_now :: pystr where
  "demo_now = str ''2024-06-01T12:00:00.000001''"

section \<open>Review: authorization and unknown ids\<close>

lemma mutate_first_absent: "\<forall>x \<in> set xs. \<not> P x \<Longrightarrow> mutate_first P f xs = xs"
  by (induction xs) auto

lemma demo_wrong_key: "get [(str ''k'', str ''guess'')] (str ''k'') [] \<noteq> demo_key"
  by (simp add: get_def str_def demo_key_def)

lemma demo_right_key: "get demo_args (str ''k'') [] = demo_key"
  by (simp add: get_def demo_args_def demo_key_def)

text \<open>
  C7. Whatever the store and the id, approve and reject called with a credential that is
  not the admin key end in \<open>Forbidden\<close> (the 403 of \<open>abort\<close>) and leave the whole store,
  so every status and \<open>updated_at\<close>, unchanged.
\<close>

theorem C7_unauthorized_no_change:
  "get args (str ''k'') [] \<noteq> ADMIN_KEY \<Longrightarrow>
     admin_approve ADMIN_KEY args now i db = (Inl Forbidden, db) \<and>
     admin_reject ADMIN_KEY args now i db = (Inl Forbidden, db)"
  by (simp add: admin_approve_def admin_reject_def)

theorem C7_unauthorized_no_change_witness:
  "get [(str ''k'', str ''guess'')] (str ''k'') [] \<noteq> demo_key \<and>
   admin_approve demo_key [(str ''k'', str ''guess'')] demo_now 101 demo_db
     = (Inl Forbidden, demo_db) \<and>
   admin_reject demo_key [(str ''k'', str ''guess'')] demo_now 101 demo_db
     = (Inl Forbidden, demo_db)"
  using C7_unauthorized_no_change [OF demo_wrong_key, of demo_now 101 demo_db] demo_wrong_key
  by simp

text \<open>
  C4. With the admin key, approve and reject on an id that no item of the store carries
  return normally (the redirect, no error) and leave the store exactly as it was: no item
  changes and none is added.
\<close>

theorem C4_unknown_id_no_change:
  "get args (str ''k'') [] = ADMIN_KEY \<Longrightarrow> i \<notin> set (map item_id db) \<Longrightarrow>
     admin_approve ADMIN_KEY args now i db = (Inr (), db) \<and>
     admin_reject ADMIN_KEY args now i db = (Inr (), db)"
  by (auto simp: admin_approve_def admin_reject_def intro!: mutate_first_absent)

lemma demo_db_no_999999: "999999 \<notin> set (map item_id demo_db)"
  by (simp add: demo_db_def demo_item_def)

theorem C4_unknown_id_no_change_witness:
  "get demo_args (str ''k'') [] = demo_key \<and> 999999 \<notin> set (map item_id demo_db) \<and>
   admin_approve demo_key demo_args demo_now 999999 demo_db = (Inr (), demo_db) \<and>
   admin_reject demo_key demo_args demo_now 999999 demo_db = (Inr (), demo_db)"
  using C4_unknown_id_no_change [OF demo_right_key demo_db_no_999999, of demo_now]
    demo_right_key demo_db_no_999999
  by simp

section \<open>Listings\<close>

lemma pending_items_mset:
  "mset (pending_items db) = filter_mset (\<lambda>it. status it = str ''pending'') (mset db)"
  by (simp add: pending_items_def)

lemma pending_items_sorted:
  "sorted (map (\<lambda>x. created_at (timestamps x)) (pending_items db))"
  by (simp add: pending_items_def)

lemma approved_items_mset:
  "mset (approved_items db) = filter_mset (\<lambda>it. status it = str ''approved'') (mset db)"
  by (simp add: approved_items_def)

lemma approved_items_sorted:
  "sorted (rev (map (\<lambda>x. updated_at (timestamps x)) (approved_items db)))"
  by (simp add: approved_items_def rev_map)

text \<open>
  C8. For every store, the pending list (the one the admin page is built from) holds
  exactly the items of the store whose status is \<open>pending\<close>, each as often as the store
  holds it, and their \<open>created_at\<close> values are in non-decreasing order.
\<close>

theorem C8_pending_listing:
  "mset (pending_items db) = filter_mset (\<lambda>it. status it = str ''pending'') (mset db) \<and>
   sorted (map (\<lambda>x. created_at (timestamps x)) (pending_items db))"
  using pending_items_mset [of db] pending_items_sorted [of db] by (rule conjI)

lemma demo_pending: "pending_items demo_db = [demo_db ! 2, demo_db ! 0]"
  by (simp add: pending_items_def demo_db_def demo_item_def str_def)

theorem C8_pending_listing_witness:
  "pending_items demo_db = [demo_db ! 2, demo_db ! 0] \<and>
   mset [demo_db ! 2, demo_db ! 0]
     = filter_mset (\<lambda>it. status it = str ''pending'') (mset demo_db) \<and>
   sorted (map (\<lambda>x. created_at (timestamps x)) [demo_db ! 2, demo_db ! 0])"
  using C8_pending_listing [of demo_db] demo_pending by simp

text \<open>
  C9. For every store, the approved list (the one the market page and the admin page
  are built from) holds exactly the items of the store whose status is \<open>approved\<close>,
  each as often as the store holds it, and their \<open>updated_at\<close> values are in
  non-increasing order (read backwards they are sorted).
\<close>

theorem C9_approved_listing:
  "mset (approved_items db) = filter_mset (\<lambda>it. status it = str ''approved'') (mset db) \<and>
   sorted (rev (map (\<lambda>x. updated_at (timestamps x)) (approved_items db)))"
  using approved_items_mset [of db] approved_items_sorted [of db] by (rule conjI)

lemma demo_approved: "approved_items demo_db = [demo_db ! 3, demo_db ! 1]"
  by (simp add: approved_items_def demo_db_def demo_item_def str_def)

theorem C9_approved_listing_witness:
  "approved_items demo_db = [demo_db ! 3, demo_db ! 1] \<and>
   mset [demo_db ! 3, demo_db ! 1]
     = filter_mset (\<lambda>it. status it = str ''approved'') (mset demo_db) \<and>
   sorted (rev (map (\<lambda>x. updated_at (timestamps x)) [demo_db ! 3, demo_db ! 1]))"
  using C9_approved_listing [of demo_db] demo_approved by simp

section \<open>Encodable text\<close>

lemma valid_str_Nil [simp]: "valid_str []"
  by (simp add: valid_str_def)

lemma valid_str_Cons [simp]: "valid_str (c # s) \<longleftrightarrow> scalar c \<and> valid_str s"
  by (simp add: valid_str_def)

lemma valid_str_append [simp]: "valid_str (s @ t) \<longleftrightarrow> valid_str s \<and> valid_str t"
  by (simp add: valid_str_def)

lemma valid_str_subset: "set t \<subseteq> set s \<Longrightarrow> valid_str s \<Longrightarrow> valid_str t"
  by (auto simp: valid_str_def list_all_iff)

lemma length_str [simp]: "length (str s) = length s"
  by (simp add: str_def)

lemma scalar_ascii: "c < 128 \<Longrightarrow> scalar c"
  by (simp add: scalar_def)

lemma scalar_of_char: "scalar (of_char c)"
proof -
  have "of_char c < (256::nat)" by simp
  then show ?thesis unfolding scalar_def by linarith
qed

lemma valid_str_str [simp]: "valid_str (str s)"
  by (simp add: str_def valid_str_def list_all_iff scalar_of_char)

lemma utf8_char_ok: "scalar c \<Longrightarrow> \<exists>bs. utf8_char c = Inr bs"
  by (auto simp: scalar_def utf8_char_def)

lemma utf8_encode_ok: "valid_str s \<Longrightarrow> \<exists>bs. utf8_encode s = Inr bs"
proof (induction s)
  case Nil
  then show ?case by simp
next
  case (Cons c s)
  then obtain bs rest where "utf8_char c = Inr bs" "utf8_encode s = Inr rest"
    using utf8_char_ok by fastforce
  then show ?case by simp
qed

lemma hexdigit_less: "d < 16 \<Longrightarrow> hexdigit d < 128"
  by (simp add: hexdigit_def)

lemma valid_escape_char:
  assumes "scalar c"
  shows "valid_str (escape_char c)"
proof (cases "c < 32")
  case True
  then have "c div 16 < 16" "c mod 16 < 16" by simp_all
  then have "scalar (hexdigit (c div 16))" "scalar (hexdigit (c mod 16))"
    by (simp_all add: hexdigit_less scalar_ascii)
  with assms show ?thesis by (simp add: escape_char_def scalar_ascii)
next
  case False
  with assms show ?thesis by (simp add: escape_char_def scalar_ascii)
qed

lemma valid_concat_escape: "valid_str s \<Longrightarrow> valid_str (concat (map escape_char s))"
  by (induction s) (simp_all add: valid_escape_char)

lemma valid_encode_basestring: "valid_str s \<Longrightarrow> valid_str (encode_basestring s)"
  by (simp add: encode_basestring_def valid_concat_escape scalar_ascii)

lemma valid_digits: "valid_str (digits n)"
proof (induction n rule: digits.induct)
  case (1 n)
  show ?case
  proof (cases "n < 10")
    case True
    then show ?thesis by (subst digits.simps) (simp add: scalar_ascii)
  next
    case False
    have "48 + n mod 10 < 128" by simp
    with False 1 show ?thesis by (subst digits.simps) (simp add: scalar_ascii)
  qed
qed

lemma valid_int_repr: "valid_str (int_repr i)"
  by (simp add: int_repr_def valid_digits scalar_ascii)

lemma valid_join:
  "valid_str sep \<Longrightarrow> (\<And>p. p \<in> set ps \<Longrightarrow> valid_str p) \<Longrightarrow> valid_str (join sep ps)"
  by (induction sep ps rule: join.induct) auto

lemma valid_dumps: "valid_json j \<Longrightarrow> valid_str (dumps j)"
proof (induction j)
  case (JInt n)
  then show ?case by (simp add: valid_int_repr)
next
  case (JStr s)
  then show ?case by (simp add: valid_encode_basestring)
next
  case (JObj kvs)
  have "valid_str (encode_basestring (fst kv) @ str '': '' @ dumps (snd kv))"
    if "kv \<in> set (sort_key fst kvs)" for kv
  proof -
    from that have mem: "kv \<in> set kvs" by simp
    with JObj.prems have "valid_str (fst kv)" "valid_json (snd kv)"
      by (auto simp: list_all_iff)
    moreover have "valid_str (dumps (snd kv))"
      using JObj.IH [of kv "snd kv"] mem \<open>valid_json (snd kv)\<close>
      by (cases kv) auto
    ultimately show ?thesis by (simp add: valid_encode_basestring)
  qed
  then show ?case by (auto intro!: valid_join)
qed

section \<open>The shape of the digest\<close>

text \<open>The standard test vector: the digest of the three bytes \<open>abc\<close>.\<close>

lemma sha256_abc:
  "hexdigest (sha256 [97, 98, 99]) =
     str ''ba7816bf8f01cfea414140de5dae2223b00361a396177a9cb410ff61f20015ad''"
  by code_simp

lemma length_sha256: "length (sha256 msg) = 32"
  by (simp add: sha256_def Let_def be32_def)

lemma length_hexdigest: "length (hexdigest bs) = 2 * length bs"
  by (induction bs) (simp_all add: hexdigest_def hex_byte_def)

lemma hexchars_list:
  "hexchars = {48, 49, 50, 51, 52, 53, 54, 55, 56, 57, 97, 98, 99, 100, 101, 102}"
  by (simp add: hexchars_def str_def)

lemma hexdigit_hexchars:
  assumes "d < 16"
  shows "hexdigit d \<in> hexchars"
proof (cases "d < 10")
  case True
  then have "48 + d \<in> {48, 49, 50, 51, 52, 53, 54, 55, 56, 57}"
    by (simp only: insert_iff empty_iff) presburger
  with True show ?thesis by (auto simp: hexdigit_def hexchars_list)
next
  case False
  with assms have "87 + d \<in> {97, 98, 99, 100, 101, 102}"
    by (simp only: insert_iff empty_iff) presburger
  with False show ?thesis by (auto simp: hexdigit_def hexchars_list)
qed

lemma hex_byte_hexchars: "set (hex_byte b) \<subseteq> hexchars"
proof -
  have "unat b < 2 ^ 8" using unsigned_less [of b] by simp
  then have "unat b div 16 < 16" "unat b mod 16 < 16" by simp_all
  then show ?thesis by (simp add: hex_byte_def hexdigit_hexchars)
qed

lemma hexdigest_hexchars: "set (hexdigest bs) \<subseteq> hexchars"
  using hex_byte_hexchars by (auto simp: hexdigest_def)

lemma compute_proof_hash_ok:
  assumes "valid_json m"
  shows "\<exists>bs. utf8_encode (dumps m) = Inr bs \<and> compute_proof_hash m = Inr (hexdigest (sha256 bs))"
proof -
  from assms obtain bs where "utf8_encode (dumps m) = Inr bs"
    using utf8_encode_ok valid_dumps by blast
  then show ?thesis by (simp add: compute_proof_hash_def)
qed

lemma compute_proof_hash_format:
  assumes "compute_proof_hash m = Inr h"
  shows "length h = 64 \<and> set h \<subseteq> hexchars"
proof -
  from assms obtain bs where "h = hexdigest (sha256 bs)"
    by (auto simp: compute_proof_hash_def split: sum.splits)
  then show ?thesis
    by (simp add: length_hexdigest length_sha256 hexdigest_hexchars)
qed

section \<open>Metadata and submission\<close>

lemma strip_subset: "set (strip s) \<subseteq> set s"
proof -
  have "set (dropWhile isspace (rev (dropWhile isspace s))) \<subseteq> set (rev (dropWhile isspace s))"
    by (rule set_dropWhileD [THEN subsetI])
  also have "\<dots> \<subseteq> set s"
    using set_dropWhileD [of _ isspace s] by auto
  finally show ?thesis by (simp add: strip_def)
qed

lemma valid_strip: "valid_str s \<Longrightarrow> valid_str (strip s)"
  using strip_subset valid_str_subset by blast

lemma valid_get:
  "list_all (\<lambda>kv. valid_str (snd kv)) d \<Longrightarrow> valid_str dflt \<Longrightarrow> valid_str (get d k dflt)"
  by (auto simp: get_def list_all_iff split: option.splits dest!: map_of_SomeD)

lemma valid_getitem:
  "list_all (\<lambda>kv. valid_str (snd kv)) d \<Longrightarrow> getitem d k = Inr v \<Longrightarrow> valid_str v"
  by (auto simp: getitem_def list_all_iff split: option.splits dest!: map_of_SomeD)

lemma valid_form_data:
  "valid_form form \<Longrightarrow> list_all (\<lambda>kv. valid_str (snd kv)) (form_data form)"
  by (simp add: form_data_def valid_form_def list_all_iff valid_strip valid_get)

lemma getitem_form_data:
  "k \<in> set form_fields \<Longrightarrow> getitem (form_data form) k = Inr (strip (get form k []))"
  by (simp add: getitem_def form_data_def map_of_map_restrict)

lemma required_fields:
  "str ''producer_name'' \<in> set form_fields" "str ''prefecture'' \<in> set form_fields"
  "str ''product'' \<in> set form_fields" "str ''certification'' \<in> set form_fields"
  "str ''lot_size'' \<in> set form_fields" "str ''harvest_date'' \<in> set form_fields"
  by (simp_all add: form_fields_def)

lemma get_form_data:
  "k \<in> set form_fields \<Longrightarrow> get (form_data form) k [] = strip (get form k [])"
  by (simp add: get_def form_data_def map_of_map_restrict)

lemma optional_fields:
  "str ''contact_email'' \<in> set form_fields" "str ''wallet_address'' \<in> set form_fields"
  "str ''notes'' \<in> set form_fields"
  by (simp_all add: form_fields_def)

text \<open>The metadata of a submission: every field of the form, trimmed, in its place.\<close>

lemma create_metadata_form_data:
  "create_metadata (form_data form) =
     Inr (JObj
       [(str ''rwa_version'', JInt 1),
        (str ''standard'', JStr (str ''hashirwa-demo'')),
        (str ''issuer'', JStr (strip (get form (str ''producer_name'') []))),
        (str ''jurisdiction'', JObj
           [(str ''country'', JStr (str ''Japan'')),
            (str ''prefecture'', JStr (strip (get form (str ''prefecture'') [])))]),
        (str ''asset'', JObj
           [(str ''category'', JStr (str ''Agriculture'')),
            (str ''product'', JStr (strip (get form (str ''product'') []))),
            (str ''certification'', JStr (strip (get form (str ''certification'') []))),
            (str ''lot_size'', JStr (strip (get form (str ''lot_size'') []))),
            (str ''harvest_date'', JStr (strip (get form (str ''harvest_date'') [])))]),
        (str ''contacts'', JObj
           [(str ''email'', JStr (strip (get form (str ''contact_email'') []))),
            (str ''wallet'', JStr (strip (get form (str ''wallet_address'') [])))]),
        (str ''notes'', JStr (strip (get form (str ''notes'') [])))])"
  by (simp add: create_metadata_def getitem_form_data get_form_data required_fields
      optional_fields)

lemma create_metadata_total: "\<exists>md. create_metadata (form_data form) = Inr md"
  by (simp add: create_metadata_def getitem_form_data required_fields)

lemma create_metadata_valid:
  assumes "list_all (\<lambda>kv. valid_str (snd kv)) d" and "create_metadata d = Inr md"
  shows "valid_json md"
  using assms(2) valid_getitem [OF assms(1)] valid_get [OF assms(1), of "[]"]
  by (auto simp: create_metadata_def split: sum.splits)

lemma key_facts:
  "str ''rwa_version'' \<noteq> str ''standard''"
  "str ''jurisdiction'' \<noteq> str ''rwa_version''" "str ''jurisdiction'' \<noteq> str ''standard''"
  "str ''jurisdiction'' \<noteq> str ''issuer''"
  "str ''asset'' \<noteq> str ''rwa_version''" "str ''asset'' \<noteq> str ''standard''"
  "str ''asset'' \<noteq> str ''issuer''" "str ''asset'' \<noteq> str ''jurisdiction''"
  "str ''issuer'' \<noteq> str ''rwa_version''" "str ''issuer'' \<noteq> str ''standard''"
  by (simp_all add: str_def)

lemma create_metadata_constants:
  assumes "create_metadata d = Inr md"
  shows "field md (str ''rwa_version'') = Some (JInt 1)"
    and "field md (str ''standard'') = Some (JStr (str ''hashirwa-demo''))"
    and "Option.bind (field md (str ''jurisdiction'')) (\<lambda>j. field j (str ''country''))
           = Some (JStr (str ''Japan''))"
    and "Option.bind (field md (str ''asset'')) (\<lambda>a. field a (str ''category''))
           = Some (JStr (str ''Agriculture''))"
  using assms by (auto simp: create_metadata_def key_facts key_facts [symmetric] split: sum.splits)

lemma create_metadata_issuer:
  assumes "create_metadata d = Inr md" and "getitem d (str ''producer_name'') = Inr v"
  shows "field md (str ''issuer'') = Some (JStr v)"
  using assms by (auto simp: create_metadata_def key_facts key_facts [symmetric] split: sum.splits)

lemma onboard_Inr:
  assumes "onboard c now form db = (Inr it, db')"
  shows "create_metadata (form_data form) = Inr (metadata it)"
    and "compute_proof_hash (metadata it) = Inr (hash (item_proof it))"
    and "sim_testnet_txid (item_proof it) = str ''testnet:'' @ take 16 (hash (item_proof it))"
    and "status it = str ''pending''"
    and "timestamps it = \<lparr>created_at = now, updated_at = now\<rparr>"
    and "item_id it = generate_id c"
    and "db' = db @ [it]"
  using assms by (auto simp: onboard_def Let_def split: sum.splits)

lemma onboard_success:
  assumes "valid_form form"
  shows "\<exists>it. onboard c now form db = (Inr it, db @ [it])"
proof -
  obtain md where md: "create_metadata (form_data form) = Inr md"
    using create_metadata_total by blast
  with assms have "valid_json md"
    using create_metadata_valid valid_form_data by blast
  then obtain h where "compute_proof_hash md = Inr h"
    using compute_proof_hash_ok by blast
  with md show ?thesis by (simp add: onboard_def Let_def)
qed

lemma valid_demo_form: "valid_form demo_form"
  by (simp add: valid_form_def demo_form_def scalar_def)

lemma valid_blank_form: "valid_form blank_form"
  by (simp add: valid_form_def blank_form_def)

lemma onboard_projections:
  assumes "valid_form form"
  shows "onboard c now form db =
           (Inr (projr (fst (onboard c now form db))), snd (onboard c now form db))"
    and "snd (onboard c now form db) = db @ [projr (fst (onboard c now form db))]"
  using onboard_success [OF assms, of c now db] by auto

text \<open>
  C6. Whenever a submission succeeds, the item it returns has status \<open>pending\<close> and its
  \<open>created_at\<close> equals its \<open>updated_at\<close>; that item is the one appended to the store.
\<close>

theorem C6_submit_pending_same_timestamps:
  "onboard c now form db = (Inr it, db') \<Longrightarrow>
     status it = str ''pending'' \<and>
     created_at (timestamps it) = updated_at (timestamps it) \<and>
     db' = db @ [it]"
  using onboard_Inr(4,5,7) [of c now form db it db'] by simp

theorem C6_submit_pending_same_timestamps_witness:
  "onboard demo_clock demo_now demo_form demo_db =
     (Inr (projr (fst (onboard demo_clock demo_now demo_form demo_db))),
      snd (onboard demo_clock demo_now demo_form demo_db)) \<and>
   status (projr (fst (onboard demo_clock demo_now demo_form demo_db))) = str ''pending'' \<and>
   created_at (timestamps (projr (fst (onboard demo_clock demo_now demo_form demo_db)))) =
   updated_at (timestamps (projr (fst (onboard demo_clock demo_now demo_form demo_db))))"
  using C6_submit_pending_same_timestamps
          [OF onboard_projections(1) [OF valid_demo_form, of demo_clock demo_now demo_db]]
        onboard_projections(1) [OF valid_demo_form, of demo_clock demo_now demo_db]
  by simp

text \<open>
  C10. Whatever the form holds, the metadata of a submitted item has \<open>rwa_version\<close> 1,
  \<open>standard\<close> \<open>hashirwa-demo\<close>, \<open>jurisdiction.country\<close> \<open>Japan\<close> and \<open>asset.category\<close>
  \<open>Agriculture\<close>: no field of the form reaches these four values.
\<close>

theorem C10_constant_metadata_fields:
  "onboard c now form db = (Inr it, db') \<Longrightarrow>
     field (metadata it) (str ''rwa_version'') = Some (JInt 1) \<and>
     field (metadata it) (str ''standard'') = Some (JStr (str ''hashirwa-demo'')) \<and>
     Option.bind (field (metadata it) (str ''jurisdiction'')) (\<lambda>j. field j (str ''country''))
       = Some (JStr (str ''Japan'')) \<and>
     Option.bind (field (metadata it) (str ''asset'')) (\<lambda>a. field a (str ''category''))
       = Some (JStr (str ''Agriculture''))"
proof -
  assume "onboard c now form db = (Inr it, db')"
  then have "create_metadata (form_data form) = Inr (metadata it)"
    by (rule onboard_Inr(1))
  then show ?thesis
    using create_metadata_constants by blast
qed

theorem C10_constant_metadata_fields_witness:
  "get demo_form (str ''country'') [] = str ''France'' \<and>
   onboard demo_clock demo_now demo_form demo_db =
     (Inr (projr (fst (onboard demo_clock demo_now demo_form demo_db))),
      snd (onboard demo_clock demo_now demo_form demo_db)) \<and>
   Option.bind
     (field (metadata (projr (fst (onboard demo_clock demo_now demo_form demo_db))))
        (str ''jurisdiction''))
     (\<lambda>j. field j (str ''country'')) = Some (JStr (str ''Japan'')) \<and>
   field (metadata (projr (fst (onboard demo_clock demo_now demo_form demo_db))))
     (str ''rwa_version'') = Some (JInt 1)"
proof -
  have "get demo_form (str ''country'') [] = str ''France''"
    by (simp add: get_def demo_form_def str_def)
  then show ?thesis
    using C10_constant_metadata_fields
            [OF onboard_projections(1) [OF valid_demo_form, of demo_clock demo_now demo_db]]
          onboard_projections(1) [OF valid_demo_form, of demo_clock demo_now demo_db]
    by simp
qed

section \<open>The proof hash and the transaction id\<close>

text \<open>
  C5. For every metadata value (its strings being text that UTF-8 can encode, as every
  string of a request is), the proof hash is computed, has 64 characters and each is one
  of \<open>0123456789abcdef\<close>. For every submitted item, the stored hash is that hash of its
  metadata, and the simulated transaction id is \<open>testnet:\<close> followed by the first 16
  characters of the hash, 24 characters in all.
\<close>

theorem C5_hash_format_and_txid:
  "(valid_json m \<longrightarrow>
      (\<exists>h. compute_proof_hash m = Inr h \<and> length h = 64 \<and> set h \<subseteq> hexchars)) \<and>
   (onboard c now form db = (Inr it, db') \<longrightarrow>
      compute_proof_hash (metadata it) = Inr (hash (item_proof it)) \<and>
      length (hash (item_proof it)) = 64 \<and> set (hash (item_proof it)) \<subseteq> hexchars \<and>
      sim_testnet_txid (item_proof it) = str ''testnet:'' @ take 16 (hash (item_proof it)) \<and>
      length (sim_testnet_txid (item_proof it)) = 24)"
proof (intro conjI impI)
  assume "valid_json m"
  then obtain h where h: "compute_proof_hash m = Inr h"
    using compute_proof_hash_ok by blast
  with compute_proof_hash_format [OF h]
  show "\<exists>h. compute_proof_hash m = Inr h \<and> length h = 64 \<and> set h \<subseteq> hexchars"
    by blast
next
  assume ok: "onboard c now form db = (Inr it, db')"
  show hash: "compute_proof_hash (metadata it) = Inr (hash (item_proof it))"
    using ok by (rule onboard_Inr(2))
  show len: "length (hash (item_proof it)) = 64"
    using compute_proof_hash_format [OF hash] by simp
  show "set (hash (item_proof it)) \<subseteq> hexchars"
    using compute_proof_hash_format [OF hash] by simp
  show txid: "sim_testnet_txid (item_proof it) = str ''testnet:'' @ take 16 (hash (item_proof it))"
    using ok by (rule onboard_Inr(3))
  show "length (sim_testnet_txid (item_proof it)) = 24"
    using len by (simp add: txid)
qed

lemma valid_demo_metadata:
  "valid_json (JObj [(str ''issuer'', JStr (str ''Test Farm'')),
                     (str ''jurisdiction'', JObj [(str ''prefecture'', JStr [0x6771, 0x4EAC, 0x90FD])]),
                     (str ''rwa_version'', JInt 1)])"
  by (simp add: scalar_def)

theorem C5_hash_format_and_txid_witness:
  "valid_json (JObj [(str ''issuer'', JStr (str ''Test Farm'')),
                     (str ''jurisdiction'', JObj [(str ''prefecture'', JStr [0x6771, 0x4EAC, 0x90FD])]),
                     (str ''rwa_version'', JInt 1)]) \<and>
   onboard demo_clock demo_now demo_form demo_db =
     (Inr (projr (fst (onboard demo_clock demo_now demo_form demo_db))),
      snd (onboard demo_clock demo_now demo_form demo_db)) \<and>
   length (hash (item_proof (projr (fst (onboard demo_clock demo_now demo_form demo_db))))) = 64 \<and>
   length (sim_testnet_txid
             (item_proof (projr (fst (onboard demo_clock demo_now demo_form demo_db))))) = 24"
  using C5_hash_format_and_txid
          [of "JObj [(str ''issuer'', JStr (str ''Test Farm'')),
                     (str ''jurisdiction'', JObj [(str ''prefecture'', JStr [0x6771, 0x4EAC, 0x90FD])]),
                     (str ''rwa_version'', JInt 1)]"
              demo_clock demo_now demo_form demo_db
              "projr (fst (onboard demo_clock demo_now demo_form demo_db))"
              "snd (onboard demo_clock demo_now demo_form demo_db)"]
        valid_demo_metadata
        onboard_projections(1) [OF valid_demo_form, of demo_clock demo_now demo_db]
  by simp

section \<open>Submission does not validate\<close>

lemma blank_producer_name: "strip (get blank_form (str ''producer_name'') []) = []"
  by (simp add: get_def blank_form_def strip_def str_def isspace_def)

text \<open>
  C2, as stated, fails: a submission whose producer name is blank after trimming, and
  whose prefecture, lot size and harvest date are missing, succeeds and adds an item to
  the store.
\<close>

theorem C2_blank_submission_accepted:
  "strip (get blank_form (str ''producer_name'') []) = [] \<and>
   map_of blank_form (str ''prefecture'') = None \<and>
   \<not> isl (fst (onboard demo_clock demo_now blank_form demo_db)) \<and>
   length (snd (onboard demo_clock demo_now blank_form demo_db)) = Suc (length demo_db)"
proof -
  have "map_of blank_form (str ''prefecture'') = None"
    by (simp add: blank_form_def str_def)
  moreover have "\<not> isl (fst (onboard demo_clock demo_now blank_form demo_db))"
    by (subst onboard_projections(1) [OF valid_blank_form]) simp
  moreover have "length (snd (onboard demo_clock demo_now blank_form demo_db)) = Suc (length demo_db)"
    by (simp add: onboard_projections(2) [OF valid_blank_form])
  ultimately show ?thesis
    using blank_producer_name by simp
qed

text \<open>
  C2, amended. For every form (of encodable text) the submission succeeds, also when a
  required field is absent or blank: it returns an item with status \<open>pending\<close>, appends
  exactly that item to the store, and the item's metadata holds, for each of the nine
  fields of the form (producer name, prefecture, product, certification, lot size,
  harvest date, email, wallet, notes), the trimmed value submitted, which is the empty
  string when the field is absent or blank.
\<close>

theorem C2_submit_never_rejects:
  "valid_form form \<Longrightarrow>
     \<exists>it. onboard c now form db = (Inr it, db @ [it]) \<and>
          status it = str ''pending'' \<and>
          metadata it =
            JObj
              [(str ''rwa_version'', JInt 1),
               (str ''standard'', JStr (str ''hashirwa-demo'')),
               (str ''issuer'', JStr (strip (get form (str ''producer_name'') []))),
               (str ''jurisdiction'', JObj
                  [(str ''country'', JStr (str ''Japan'')),
                   (str ''prefecture'', JStr (strip (get form (str ''prefecture'') [])))]),
               (str ''asset'', JObj
                  [(str ''category'', JStr (str ''Agriculture'')),
                   (str ''product'', JStr (strip (get form (str ''product'') []))),
                   (str ''certification'', JStr (strip (get form (str ''certification'') []))),
                   (str ''lot_size'', JStr (strip (get form (str ''lot_size'') []))),
                   (str ''harvest_date'', JStr (strip (get form (str ''harvest_date'') [])))]),
               (str ''contacts'', JObj
                  [(str ''email'', JStr (strip (get form (str ''contact_email'') []))),
                   (str ''wallet'', JStr (strip (get form (str ''wallet_address'') [])))]),
               (str ''notes'', JStr (strip (get form (str ''notes'') [])))]"
proof -
  assume "valid_form form"
  then obtain it where it: "onboard c now form db = (Inr it, db @ [it])"
    using onboard_success by blast
  have "create_metadata (form_data form) = Inr (metadata it)"
    using it by (rule onboard_Inr(1))
  then have md: "Inr (metadata it) = create_metadata (form_data form)"
    by simp
  have st: "status it = str ''pending''"
    using it by (rule onboard_Inr(4))
  show ?thesis
    using it st md [unfolded create_metadata_form_data] by blast
qed

lemma blank_form_fields:
  "strip (get blank_form (str ''producer_name'') []) = []"
  "strip (get blank_form (str ''prefecture'') []) = []"
  "strip (get blank_form (str ''product'') []) = []"
  "strip (get blank_form (str ''certification'') []) = []"
  "strip (get blank_form (str ''lot_size'') []) = []"
  "strip (get blank_form (str ''harvest_date'') []) = []"
  "strip (get blank_form (str ''contact_email'') []) = []"
  "strip (get blank_form (str ''wallet_address'') []) = []"
  "strip (get blank_form (str ''notes'') []) = []"
  by (simp_all add: get_def blank_form_def strip_def str_def isspace_def)

theorem C2_submit_never_rejects_witness:
  "valid_form blank_form \<and>
   onboard demo_clock demo_now blank_form demo_db =
     (Inr (projr (fst (onboard demo_clock demo_now blank_form demo_db))),
      demo_db @ [projr (fst (onboard demo_clock demo_now blank_form demo_db))]) \<and>
   status (projr (fst (onboard demo_clock demo_now blank_form demo_db))) = str ''pending'' \<and>
   metadata (projr (fst (onboard demo_clock demo_now blank_form demo_db))) =
     JObj
       [(str ''rwa_version'', JInt 1),
        (str ''standard'', JStr (str ''hashirwa-demo'')),
        (str ''issuer'', JStr []),
        (str ''jurisdiction'', JObj
           [(str ''country'', JStr (str ''Japan'')),
            (str ''prefecture'', JStr [])]),
        (str ''asset'', JObj
           [(str ''category'', JStr (str ''Agriculture'')),
            (str ''product'', JStr []),
            (str ''certification'', JStr []),
            (str ''lot_size'', JStr []),
            (str ''harvest_date'', JStr [])]),
        (str ''contacts'', JObj
           [(str ''email'', JStr []),
            (str ''wallet'', JStr [])]),
        (str ''notes'', JStr [])]"
  using C2_submit_never_rejects [OF valid_blank_form, of demo_clock demo_now demo_db]
        valid_blank_form
  by (auto simp: blank_form_fields)

section \<open>Status transitions\<close>

lemma map_status_mutate_first:
  "map status (mutate_first (\<lambda>it. item_id it = i) (set_status st now) db)
     = (map status db)[first_index i db := st]"
  by (induction db) (simp_all add: first_index_def set_status_def)

lemma seed_loop_ok:
  assumes "list_all (\<lambda>d. valid_form d \<and> \<not> isl (create_metadata d)) ds"
  shows "\<exists>new. seed_loop clock now n ds items = Inr (items @ new) \<and>
               map status new = replicate (length ds) (str ''approved'') \<and>
               map item_id new = map (\<lambda>k. generate_id (clock (n + k))) [0..<length ds]"
  using assms
proof (induction ds arbitrary: n items)
  case Nil
  then show ?case by simp
next
  case (Cons d ds)
  then obtain md where md: "create_metadata d = Inr md"
    by (cases "create_metadata d") auto
  from Cons.prems have "list_all (\<lambda>kv. valid_str (snd kv)) d"
    by (simp add: valid_form_def)
  then have "valid_json md"
    using md by (rule create_metadata_valid)
  then obtain h where h: "compute_proof_hash md = Inr h"
    using compute_proof_hash_ok by blast
  define it where "it =
    \<lparr>item_id = generate_id (clock n), status = str ''approved'', metadata = md,
     item_proof = \<lparr>hash = h, sim_testnet_txid = str ''testnet:'' @ take 16 h\<rparr>,
     timestamps = \<lparr>created_at = now, updated_at = now\<rparr>\<rparr>"
  from Cons.prems have "list_all (\<lambda>d. valid_form d \<and> \<not> isl (create_metadata d)) ds"
    by simp
  from Cons.IH [OF this, of "Suc n" "items @ [it]"]
  obtain new where new:
    "seed_loop clock now (Suc n) ds (items @ [it]) = Inr ((items @ [it]) @ new)"
    "map status new = replicate (length ds) (str ''approved'')"
    "map item_id new = map (\<lambda>k. generate_id (clock (Suc n + k))) [0..<length ds]"
    by blast
  have "seed_loop clock now n (d # ds) items = Inr (items @ (it # new))"
    using md h new(1) by (simp add: it_def)
  moreover have "map status (it # new) = replicate (length (d # ds)) (str ''approved'')"
    using new(2) by (simp add: it_def)
  moreover have "map item_id (it # new)
      = map (\<lambda>k. generate_id (clock (n + k))) [0..<length (d # ds)]"
    using new(3) by (simp add: it_def map_upt_Suc del: upt_Suc)
  ultimately show ?case by blast
qed

lemma seed_items_ok: "list_all (\<lambda>d. valid_form d \<and> \<not> isl (create_metadata d)) seed_items"
  by (simp add: seed_items_def valid_form_def scalar_def create_metadata_def getitem_def
      str_def)

lemma seed_data_empty:
  "\<exists>a b c. seed_data clock now [] = Inr [a, b, c] \<and>
           status a = str ''approved'' \<and> status b = str ''approved'' \<and>
           status c = str ''approved'' \<and> item_id a = generate_id (clock 0)"
proof -
  from seed_loop_ok [OF seed_items_ok, of clock now 0 "[]"]
  obtain new where new: "seed_loop clock now 0 seed_items [] = Inr new"
    "map status new = replicate (length seed_items) (str ''approved'')"
    "map item_id new = map (\<lambda>k. generate_id (clock (0 + k))) [0..<length seed_items]"
    by auto
  have three: "length seed_items = 3" by (simp add: seed_items_def)
  from new(2) have "length new = 3"
    using three by (metis length_map length_replicate)
  then obtain a b c where abc: "new = [a, b, c]"
    by (auto simp: length_Suc_conv numeral_3_eq_3)
  from new(2,3) three have "status a = str ''approved''" "status b = str ''approved''"
    "status c = str ''approved''" "item_id a = generate_id (clock 0)"
    by (simp_all add: abc numeral_3_eq_3 upt_conv_Cons)
  with new(1) abc show ?thesis by (simp add: seed_data_def)
qed

text \<open>
  C3, as stated, fails. The store that \<open>seed_data\<close> writes at start-up holds three
  approved items; one authorised reject on the id of the first changes its status from
  \<open>approved\<close> to \<open>rejected\<close>.
\<close>

theorem C3_approved_then_rejected:
  "\<not> isl (seed_data demo_ticks demo_now []) \<and>
   map status (projr (seed_data demo_ticks demo_now []))
     = [str ''approved'', str ''approved'', str ''approved''] \<and>
   map status (snd (admin_reject demo_key demo_args demo_now (generate_id (demo_ticks 0))
                      (projr (seed_data demo_ticks demo_now []))))
     = [str ''rejected'', str ''approved'', str ''approved'']"
proof -
  obtain a b c where seed: "seed_data demo_ticks demo_now [] = Inr [a, b, c]"
    and st: "status a = str ''approved''" "status b = str ''approved''"
      "status c = str ''approved''"
    and ida: "item_id a = generate_id (demo_ticks 0)"
    using seed_data_empty [of demo_ticks demo_now] by blast
  have "map status (snd (admin_reject demo_key demo_args demo_now (generate_id (demo_ticks 0))
                           [a, b, c]))
          = [str ''rejected'', str ''approved'', str ''approved'']"
    using demo_right_key st ida by (simp add: admin_reject_def set_status_def)
  with seed st show ?thesis by simp
qed

text \<open>
  C3, amended. An authorised approve sets the status of the first item that carries the
  id to \<open>approved\<close>, an authorised reject sets it to \<open>rejected\<close>, whatever the status was
  before, and no other status in the store changes (with an unknown id, none changes). So
  an admin operation never makes a status \<open>pending\<close>, but it does move an item between
  \<open>approved\<close> and \<open>rejected\<close>.
\<close>

theorem C3_admin_sets_status_unconditionally:
  "get args (str ''k'') [] = ADMIN_KEY \<Longrightarrow>
     map status (snd (admin_approve ADMIN_KEY args now i db))
       = (map status db)[first_index i db := str ''approved''] \<and>
     map status (snd (admin_reject ADMIN_KEY args now i db))
       = (map status db)[first_index i db := str ''rejected'']"
  by (simp add: admin_approve_def admin_reject_def map_status_mutate_first)

theorem C3_admin_sets_status_unconditionally_witness:
  "get demo_args (str ''k'') [] = demo_key \<and>
   map status demo_db
     = [str ''pending'', str ''approved'', str ''pending'', str ''approved''] \<and>
   first_index 102 demo_db = 1 \<and>
   map status (snd (admin_reject demo_key demo_args demo_now 102 demo_db))
     = [str ''pending'', str ''rejected'', str ''pending'', str ''approved'']"
proof -
  have idx: "first_index 102 demo_db = 1"
    by (simp add: first_index_def demo_db_def demo_item_def)
  have st: "map status demo_db
              = [str ''pending'', str ''approved'', str ''pending'', str ''approved'']"
    by (simp add: demo_db_def demo_item_def)
  show ?thesis
    using C3_admin_sets_status_unconditionally [OF demo_right_key, of demo_now 102 demo_db]
      demo_right_key idx st
    by simp
qed

section \<open>The hash does not depend on insertion order\<close>

lemma py_find_D: "py_find k v ys \<Longrightarrow> \<exists>kw \<in> set ys. fst kw = k \<and> py_eq v (snd kw)"
  by (induction ys) (auto split: if_splits)

lemma py_sub_D: "py_sub xs ys \<Longrightarrow> kv \<in> set xs \<Longrightarrow> py_find (fst kv) (snd kv) ys"
  by (induction xs) auto

lemma insort_key_map_fst:
  assumes "\<And>z. fst (h z) = fst z"
  shows "insort_key fst (h x) (map h ys) = map h (insort_key fst x ys)"
  by (induction ys) (simp_all add: assms)

lemma sort_key_map_fst:
  assumes "\<And>z. fst (h z) = fst z"
  shows "sort_key fst (map h xs) = map h (sort_key fst xs)"
  by (induction xs) (simp_all add: insort_key_map_fst [OF assms])

text \<open>
  The items of a dict, each value replaced by its serialisation. Sorting them by key and
  writing them out is what \<open>dumps\<close> does with a dict.
\<close>

lemma dumps_JObj_enc:
  "dumps (JObj kvs) =
     str ''{'' @
     join (str '', '')
       (map (\<lambda>ks. encode_basestring (fst ks) @ str '': '' @ snd ks)
          (sort_key fst (map (\<lambda>kv. (fst kv, dumps (snd kv))) kvs))) @
     str ''}''"
proof -
  have "sort_key fst (map (\<lambda>kv. (fst kv, dumps (snd kv))) kvs)
          = map (\<lambda>kv. (fst kv, dumps (snd kv))) (sort_key fst kvs)"
    by (rule sort_key_map_fst) simp
  then show ?thesis by (simp add: comp_def)
qed

lemma sort_key_distinct_keys:
  assumes "set xs \<subseteq> set ys" and "length xs = length ys"
    and "distinct (map fst xs)" and "distinct (map fst ys)"
  shows "sort_key fst xs = sort_key fst ys"
proof -
  have dx: "distinct xs" and dy: "distinct ys"
    using assms(3,4) by (simp_all add: distinct_map)
  have "card (set xs) = card (set ys)"
    using dx dy assms(2) by (simp add: distinct_card)
  with assms(1) have "set xs = set ys"
    by (simp add: card_subset_eq)
  then have "mset xs = mset ys"
    using dx dy by (simp add: set_eq_iff_mset_eq_distinct)
  then have "mset xs = mset (sort_key fst ys)" by simp
  moreover have "inj_on fst (set xs)"
    using assms(3) by (simp add: distinct_map)
  moreover have "sorted (map fst (sort_key fst ys))" by simp
  ultimately show ?thesis by (rule sort_key_inj_key_eq)
qed

lemma dumps_py_eq: "py_eq a b \<Longrightarrow> is_dict a \<Longrightarrow> is_dict b \<Longrightarrow> dumps a = dumps b"
proof (induction a arbitrary: b)
  case (JInt n)
  then show ?case by (cases b) simp_all
next
  case (JStr s)
  then show ?case by (cases b) simp_all
next
  case (JObj xs)
  from JObj.prems(1) obtain ys where b: "b = JObj ys"
    by (cases b) simp_all
  let ?enc = "map (\<lambda>kv. (fst kv, dumps (snd kv)))"
  from JObj.prems b have len: "length xs = length ys" and sub: "py_sub xs ys"
    and dx: "distinct (map fst xs)" and dy: "distinct (map fst ys)"
    and ix: "\<And>kv. kv \<in> set xs \<Longrightarrow> is_dict (snd kv)"
    and iy: "\<And>kw. kw \<in> set ys \<Longrightarrow> is_dict (snd kw)"
    by (simp_all add: list_all_iff)
  have "set (?enc xs) \<subseteq> set (?enc ys)"
  proof
    fix e assume "e \<in> set (?enc xs)"
    then obtain kv where kv: "kv \<in> set xs" and e: "e = (fst kv, dumps (snd kv))"
      by auto
    from py_sub_D [OF sub kv] obtain kw where kw: "kw \<in> set ys"
      and key: "fst kw = fst kv" and eq: "py_eq (snd kv) (snd kw)"
      using py_find_D by blast
    have "dumps (snd kv) = dumps (snd kw)"
      using JObj.IH [of kv "snd kv" "snd kw"] kv eq ix [OF kv] iy [OF kw]
      by (cases kv) auto
    with key e have "e = (fst kw, dumps (snd kw))" by simp
    with kw show "e \<in> set (?enc ys)" by auto
  qed
  moreover have "length (?enc xs) = length (?enc ys)"
    using len by simp
  moreover have "distinct (map fst (?enc xs))" "distinct (map fst (?enc ys))"
    using dx dy by (simp_all add: comp_def)
  ultimately have "sort_key fst (?enc xs) = sort_key fst (?enc ys)"
    by (rule sort_key_distinct_keys)
  then show ?case
    unfolding b dumps_JObj_enc by simp
qed

text \<open>
  C1. Two metadata values that are equal as Python values (the same keys with equal
  values at every level, in whatever insertion order) have the same proof hash: the hash
  is a function of the content alone.
\<close>

theorem C1_hash_order_independent:
  "is_dict m1 \<Longrightarrow> is_dict m2 \<Longrightarrow> py_eq m1 m2 \<Longrightarrow>
     compute_proof_hash m1 = compute_proof_hash m2"
  by (simp add: compute_proof_hash_def dumps_py_eq)

lemma demo_md_facts:
  "is_dict demo_md_a" "is_dict demo_md_b" "py_eq demo_md_a demo_md_b"
  "demo_md_a \<noteq> demo_md_b"
  by (simp_all add: demo_md_a_def demo_md_b_def str_def)

theorem C1_hash_order_independent_witness:
  "is_dict demo_md_a \<and> is_dict demo_md_b \<and> py_eq demo_md_a demo_md_b \<and>
   demo_md_a \<noteq> demo_md_b \<and>
   compute_proof_hash demo_md_a = compute_proof_hash demo_md_b"
  using C1_hash_order_independent [OF demo_md_facts(1,2,3)] demo_md_facts
  by simp

end
